theory Spec2Isabelle
  imports Main
begin

section \<open>Data model\<close>

text \<open>
  A user document as the controllers read it: \<open>_id\<close> (written \<open>uid\<close>), \<open>name\<close>,
  \<open>email\<close>, \<open>tel\<close>, \<open>role\<close>, \<open>password\<close> (the stored representation) and
  \<open>createdAt\<close>. The role is a string, as in the comparison \<open>req.user.role !== "admin"\<close>.
\<close>

record user =
  uid :: string
  name :: string
  email :: string
  tel :: string
  role :: string
  password :: string
  createdAt :: nat

text \<open>The collection of user documents, in insertion order.\<close>

type_synonym docs = "user list"

text \<open>JSON scalars of a request body, with JavaScript's truthiness (\<open>!x\<close>).\<close>

datatype js = JUndefined | JNull | JBool bool | JNum int | JStr string

fun truthy :: "js \<Rightarrow> bool" where
  "truthy JUndefined = False"
| "truthy JNull = False"
| "truthy (JBool b) = b"
| "truthy (JNum n) = (n \<noteq> 0)"
| "truthy (JStr s) = (s \<noteq> [])"

text \<open>Truthiness of a body field that is a string when present (absent is \<open>undefined\<close>).\<close>

fun truthy_field :: "string option \<Rightarrow> bool" where
  "truthy_field None = False"
| "truthy_field (Some s) = (s \<noteq> [])"

text \<open>
  Errors thrown by the collaborators. Only a duplicate-key error of the store carries a
  \<open>keyValue\<close> property; on every other error \<open>err.keyValue\<close> is \<open>undefined\<close>.
\<close>

datatype js_error =
    CastError
  | ValidationError
  | DuplicateKey "(string \<times> js) list"
  | TypeError
  | StoreError

fun keyValue :: "js_error \<Rightarrow> (string \<times> js) list option" where
  "keyValue (DuplicateKey kv) = Some kv"
| "keyValue _ = None"

text \<open>An awaited promise either resolves with a value or rejects with an error.\<close>

datatype 'a promise = Resolved 'a | Rejected js_error

text \<open>Request bodies: \<open>POST /auth/register\<close>, \<open>POST /auth/login\<close>, \<open>PUT /auth/:id\<close>.\<close>

record register_body =
  r_name :: "string option"
  r_email :: "string option"
  r_tel :: "string option"
  r_password :: "string option"
  r_role :: "string option"

text \<open>
  The login body: the email is a string when present; the password is any JSON scalar,
  so that a secret that is not a string can be submitted.
\<close>

record login_body =
  l_email :: "string option"
  l_password :: js

text \<open>The update body: each settable path of the document is present or absent.\<close>

record patch =
  p_name :: "string option"
  p_email :: "string option"
  p_tel :: "string option"
  p_role :: "string option"
  p_password :: "string option"
  p_createdAt :: "nat option"

text \<open>
  A session token: the subject's id, the expiry instant and the key it was signed with
  (the signature is valid exactly when that key is the server's secret). It has no role.
\<close>

record token =
  t_sub :: string
  t_exp :: nat
  t_key :: string

text \<open>The process configuration read from \<open>process.env\<close>; durations in milliseconds and days.\<close>

record config =
  JWT_SECRET :: string
  JWT_EXPIRE :: nat
  JWT_COOKIE_EXPIRE :: nat
  NODE_ENV :: string

text \<open>Responses: status, the cookie set (if any) and the JSON body.\<close>

record cookie =
  c_name :: string
  c_value :: "token option"
  c_expires :: nat
  c_httpOnly :: bool
  c_secure :: bool

datatype json =
    Msg bool string
  | Message bool string
  | Success bool
  | Data bool "user option"
  | DataEmpty bool
  | TokenBody bool string string string string token

record response =
  status :: nat
  set_cookie :: "cookie option"
  body :: json

text \<open>A handler either sends a response or ends with an error nobody catches.\<close>

datatype result = Sent response | Uncaught js_error

definition json_response :: "nat \<Rightarrow> json \<Rightarrow> response" where
  "json_response code b = \<lparr>status = code, set_cookie = None, body = b\<rparr>"

section \<open>Collaborators that are not part of the controllers\<close>

text \<open>
  The user model and the store behind it are consulted through a narrow interface. What
  they decide is a parameter of every handler:
  \<^item> \<open>castId\<close>: whether an id string casts to the store's id type (\<open>findById\<close> rejects
    with a cast error otherwise);
  \<^item> \<open>write_error\<close>: the error, if any, with which the validators or the store reject
    writing a document next to the current ones;
  \<^item> \<open>remove_error\<close>: the error, if any, with which removing a document is rejected;
  \<^item> \<open>new_id\<close>: the id the store gives to a new document;
  \<^item> \<open>bcrypt_hash\<close>, \<open>bcrypt_compare\<close>: the credential verifier.
\<close>

record collab =
  castId :: "string \<Rightarrow> bool"
  write_error :: "docs \<Rightarrow> user \<Rightarrow> js_error option"
  remove_error :: "docs \<Rightarrow> user \<Rightarrow> js_error option"
  new_id :: "docs \<Rightarrow> string"
  bcrypt_hash :: "string \<Rightarrow> string"
  bcrypt_compare :: "string \<Rightarrow> string \<Rightarrow> bool"

definition lookup_id :: "docs \<Rightarrow> string \<Rightarrow> user option" where
  "lookup_id ds i = find (\<lambda>d. uid d = i) ds"

definition replace_doc :: "docs \<Rightarrow> user \<Rightarrow> docs" where
  "replace_doc ds d = map (\<lambda>x. if uid x = uid d then d else x) ds"

definition delete_doc :: "docs \<Rightarrow> user \<Rightarrow> docs" where
  "delete_doc ds d = filter (\<lambda>x. uid x \<noteq> uid d) ds"

text \<open>\<open>User.findById(id)\<close>: rejects when the id does not cast, else resolves with the document or null.\<close>

definition findById :: "collab \<Rightarrow> docs \<Rightarrow> string \<Rightarrow> user option promise" where
  "findById c ds i = (if castId c i then Resolved (lookup_id ds i) else Rejected CastError)"

text \<open>\<open>User.findOne({ email })\<close> on a string email.\<close>

definition findOne_email :: "docs \<Rightarrow> string \<Rightarrow> user option promise" where
  "findOne_email ds e = Resolved (find (\<lambda>d. email d = e) ds)"

text \<open>\<open>Object.assign(user, req.body)\<close>: every field present in the body overwrites the document's.\<close>

definition assign :: "user \<Rightarrow> patch \<Rightarrow> user" where
  "assign u p =
     u\<lparr>name := (case p_name p of None \<Rightarrow> name u | Some v \<Rightarrow> v),
       email := (case p_email p of None \<Rightarrow> email u | Some v \<Rightarrow> v),
       tel := (case p_tel p of None \<Rightarrow> tel u | Some v \<Rightarrow> v),
       role := (case p_role p of None \<Rightarrow> role u | Some v \<Rightarrow> v),
       password := (case p_password p of None \<Rightarrow> password u | Some v \<Rightarrow> v),
       createdAt := (case p_createdAt p of None \<Rightarrow> createdAt u | Some v \<Rightarrow> v)\<rparr>"

text \<open>
  Modelled from the spec: \<open>user.save()\<close> with the model's save middleware, which is not
  under src/. A resubmitted raw password is re-hashed before storage; the validators see
  the document as assigned. Resolves with the stored document and the new collection.
\<close>

definition save :: "collab \<Rightarrow> docs \<Rightarrow> user \<Rightarrow> (user \<times> docs) promise" where
  "save c ds u =
     (case write_error c ds u of
        Some e \<Rightarrow> Rejected e
      | None \<Rightarrow>
          (let h = u\<lparr>password := bcrypt_hash c (password u)\<rparr>
           in Resolved (h, replace_doc ds h)))"

text \<open>
  \<open>User.findByIdAndUpdate(id, body, {new: true, runValidators: true})\<close>: sets the fields
  of the body on the stored document and resolves with the updated document (or null).
\<close>

definition findByIdAndUpdate :: "collab \<Rightarrow> docs \<Rightarrow> string \<Rightarrow> patch \<Rightarrow> (user option \<times> docs) promise" where
  "findByIdAndUpdate c ds i p =
     (if \<not> castId c i then Rejected CastError
      else case lookup_id ds i of
        None \<Rightarrow> Resolved (None, ds)
      | Some d \<Rightarrow>
          (case write_error c ds (assign d p) of
             Some e \<Rightarrow> Rejected e
           | None \<Rightarrow> Resolved (Some (assign d p), replace_doc ds (assign d p))))"

text \<open>\<open>user.remove()\<close>.\<close>

definition remove_user :: "collab \<Rightarrow> docs \<Rightarrow> user \<Rightarrow> docs promise" where
  "remove_user c ds u =
     (case remove_error c ds u of
        Some e \<Rightarrow> Rejected e
      | None \<Rightarrow> Resolved (delete_doc ds u))"

text \<open>
  Modelled from the spec: \<open>user.matchPassword(raw)\<close> of the model, which is not under
  src/. A raw secret that is not a well-formed string fails with a validation error;
  otherwise the secret is compared with the stored representation.
\<close>

fun matchPassword :: "collab \<Rightarrow> user \<Rightarrow> js \<Rightarrow> bool promise" where
  "matchPassword c u (JStr s) = Resolved (bcrypt_compare c s (password u))"
| "matchPassword c u _ = Rejected ValidationError"

text \<open>
  Modelled from the spec: \<open>user.getSignedJwtToken()\<close> of the model, which is not under
  src/. The token embeds the user id and the expiry, issuance time plus the configured
  lifetime, and is signed with the server's secret.
\<close>

definition getSignedJwtToken :: "config \<Rightarrow> nat \<Rightarrow> user \<Rightarrow> token" where
  "getSignedJwtToken cfg now u =
     \<lparr>t_sub = uid u, t_exp = now + JWT_EXPIRE cfg, t_key = JWT_SECRET cfg\<rparr>"

text \<open>
  Modelled from the spec: \<open>User.create\<close> of the model, which is not under src/. The
  fields name, email, tel and password are required (the schema documented in
  src/routes/auth.js); the role defaults to \<open>user\<close>; the validators and the store may
  reject the document (a duplicate email is a duplicate-key error of the store); the
  password is hashed before the document is persisted.
\<close>

definition User_create :: "collab \<Rightarrow> nat \<Rightarrow> docs \<Rightarrow> register_body \<Rightarrow> js_error + user" where
  "User_create c now ds b =
     (case (r_name b, r_email b, r_tel b, r_password b) of
        (Some n, Some e, Some t, Some p) \<Rightarrow>
          (let d = \<lparr>uid = new_id c ds, name = n, email = e, tel = t,
                     role = (case r_role b of None \<Rightarrow> ''user'' | Some r \<Rightarrow> r),
                     password = p, createdAt = now\<rparr>
           in case write_error c ds d of
                Some err \<Rightarrow> Inl err
              | None \<Rightarrow> Inr (d\<lparr>password := bcrypt_hash c p\<rparr>))
      | _ \<Rightarrow> Inl ValidationError)"

section \<open>Controllers\<close>

definition sendTokenResponse :: "config \<Rightarrow> nat \<Rightarrow> user \<Rightarrow> nat \<Rightarrow> response" where
  "sendTokenResponse cfg now u statusCode =
     (let tok = getSignedJwtToken cfg now u
      in \<lparr>status = statusCode,
          set_cookie = Some \<lparr>c_name = ''token'', c_value = Some tok,
                             c_expires = now + JWT_COOKIE_EXPIRE cfg * 24 * 60 * 60 * 1000,
                             c_httpOnly = True,
                             c_secure = (NODE_ENV cfg = ''production'')\<rparr>,
          body = TokenBody True (uid u) (name u) (email u) (role u) tok\<rparr>)"

text \<open>
  \<open>register\<close>: the catch block reads \<open>err.keyValue.email\<close>; when the error has no
  \<open>keyValue\<close> that read throws inside the handler and no response is sent.
\<close>

definition register :: "collab \<Rightarrow> config \<Rightarrow> nat \<Rightarrow> docs \<Rightarrow> register_body \<Rightarrow> result \<times> docs" where
  "register c cfg now ds b =
     (case User_create c now ds b of
        Inr u \<Rightarrow> (Sent (sendTokenResponse cfg now u 200), ds @ [u])
      | Inl err \<Rightarrow>
          (case keyValue err of
             None \<Rightarrow> (Uncaught TypeError, ds)
           | Some kv \<Rightarrow>
               (Sent (json_response 400
                  (Message False
                     (if (case map_of kv ''email'' of None \<Rightarrow> False | Some v \<Rightarrow> truthy v)
                      then ''Email already exists'' else ''Cannot create User''))), ds)))"

definition login :: "collab \<Rightarrow> config \<Rightarrow> nat \<Rightarrow> docs \<Rightarrow> login_body \<Rightarrow> result" where
  "login c cfg now ds b =
     (if \<not> truthy_field (l_email b) \<or> \<not> truthy (l_password b)
      then Sent (json_response 400 (Msg False ''Please provide an email and password''))
      else case findOne_email ds (case l_email b of None \<Rightarrow> [] | Some e \<Rightarrow> e) of
        Rejected err \<Rightarrow>
          Sent (json_response 401 (Msg False ''Cannot convert email or password to string''))
      | Resolved None \<Rightarrow> Sent (json_response 400 (Msg False ''Invalid credentials''))
      | Resolved (Some u) \<Rightarrow>
          (case matchPassword c u (l_password b) of
             Rejected err \<Rightarrow>
               Sent (json_response 401 (Msg False ''Cannot convert email or password to string''))
           | Resolved isMatch \<Rightarrow>
               if \<not> isMatch then Sent (json_response 401 (Msg False ''Invalid credentials''))
               else Sent (sendTokenResponse cfg now u 200)))"


definition updateUser :: "collab \<Rightarrow> docs \<Rightarrow> string \<Rightarrow> patch \<Rightarrow> user \<Rightarrow> result \<times> docs" where
  "updateUser c ds params_id req_body req_user =
     (case findById c ds params_id of
        Rejected err \<Rightarrow> (Sent (json_response 400 (Success False)), ds)
      | Resolved None \<Rightarrow> (Sent (json_response 400 (Success False)), ds)
      | Resolved (Some u) \<Rightarrow>
          if params_id \<noteq> uid req_user \<and> role req_user \<noteq> ''admin''
          then (Sent (json_response 401
                  (Message False (''User '' @ uid req_user @ '' is not authorized to update this user''))), ds)
          else if truthy_field (p_password req_body)
          then (case save c ds (assign u req_body) of
                  Rejected err \<Rightarrow> (Sent (json_response 400 (Success False)), ds)
                | Resolved (saved, ds') \<Rightarrow> (Sent (json_response 200 (Data True (Some saved))), ds'))
          else (case findByIdAndUpdate c ds params_id req_body of
                  Rejected err \<Rightarrow> (Sent (json_response 400 (Success False)), ds)
                | Resolved (updated, ds') \<Rightarrow> (Sent (json_response 200 (Data True (Some u))), ds')))"

definition deleteUser :: "collab \<Rightarrow> docs \<Rightarrow> string \<Rightarrow> user \<Rightarrow> result \<times> docs" where
  "deleteUser c ds params_id req_user =
     (case findById c ds params_id of
        Rejected err \<Rightarrow> (Sent (json_response 500 (Message False ''Cannot delete User'')), ds)
      | Resolved None \<Rightarrow>
          (Sent (json_response 404 (Message False (''No user with the id of '' @ params_id))), ds)
      | Resolved (Some u) \<Rightarrow>
          if params_id \<noteq> uid req_user \<and> role req_user \<noteq> ''admin''
          then (Sent (json_response 401
                  (Message False (''User '' @ uid req_user @ '' is not authorized to delete this user''))), ds)
          else (case remove_user c ds u of
                  Rejected err \<Rightarrow> (Sent (json_response 500 (Message False ''Cannot delete User'')), ds)
                | Resolved ds' \<Rightarrow> (Sent (json_response 200 (DataEmpty True)), ds')))"

section \<open>The access control gate and the routes\<close>

datatype auth_error = MissingToken | Invalid | Expired | UserGone | Forbidden

text \<open>
  Modelled from the spec: the token check of the session token issuer, which is not under
  src/. The signature must be valid and the current time before the expiry; a token
  presented exactly at its expiry is expired.
\<close>

definition verify_token :: "config \<Rightarrow> nat \<Rightarrow> token \<Rightarrow> auth_error + string" where
  "verify_token cfg now t =
     (if t_key t \<noteq> JWT_SECRET cfg then Inl Invalid
      else if now < t_exp t then Inr (t_sub t)
      else Inl Expired)"

text \<open>
  Modelled from the spec: the middleware \<open>protect\<close> (middleware/auth.js is not under
  src/). A missing token fails; a present one is verified; the current record of the
  token's subject is fetched from the store and becomes \<open>req.user\<close>; a subject with no
  record fails.
\<close>

definition protect :: "config \<Rightarrow> nat \<Rightarrow> docs \<Rightarrow> token option \<Rightarrow> auth_error + user" where
  "protect cfg now ds tok =
     (case tok of
        None \<Rightarrow> Inl MissingToken
      | Some t \<Rightarrow>
          (case verify_token cfg now t of
             Inl e \<Rightarrow> Inl e
           | Inr i \<Rightarrow>
               (case lookup_id ds i of
                  None \<Rightarrow> Inl UserGone
                | Some u \<Rightarrow> Inr u)))"

text \<open>
  Modelled from the spec: the middleware \<open>authorize(...roles)\<close> (middleware/auth.js is
  not under src/). The authenticated record's current role must be one of the allowed
  roles, else the request is forbidden.
\<close>

definition authorize :: "string list \<Rightarrow> user \<Rightarrow> auth_error + user" where
  "authorize roles req_user = (if role req_user \<in> set roles then Inr req_user else Inl Forbidden)"

text \<open>The middleware chain \<open>protect, authorize(...roles)\<close> of a route.\<close>

definition gate :: "config \<Rightarrow> nat \<Rightarrow> docs \<Rightarrow> token option \<Rightarrow> string list \<Rightarrow> auth_error + user" where
  "gate cfg now ds tok roles =
     (case protect cfg now ds tok of
        Inl e \<Rightarrow> Inl e
      | Inr req_user \<Rightarrow> authorize roles req_user)"


definition router_put ::
  "collab \<Rightarrow> config \<Rightarrow> nat \<Rightarrow> docs \<Rightarrow> token option \<Rightarrow> string \<Rightarrow> patch \<Rightarrow> auth_error + result \<times> docs" where
  "router_put c cfg now ds tok params_id req_body =
     (case gate cfg now ds tok [''admin'', ''user''] of
        Inl e \<Rightarrow> Inl e
      | Inr req_user \<Rightarrow> Inr (updateUser c ds params_id req_body req_user))"

definition router_delete ::
  "collab \<Rightarrow> config \<Rightarrow> nat \<Rightarrow> docs \<Rightarrow> token option \<Rightarrow> string \<Rightarrow> auth_error + result \<times> docs" where
  "router_delete c cfg now ds tok params_id =
     (case gate cfg now ds tok [''admin''] of
        Inl e \<Rightarrow> Inl e
      | Inr req_user \<Rightarrow> Inr (deleteUser c ds params_id req_user))"

text \<open>The status of the response a handler sent, if it sent one.\<close>

fun status_of :: "result \<Rightarrow> nat option" where
  "status_of (Sent r) = Some (status r)"
| "status_of (Uncaught e) = None"


section \<open>A concrete instance\<close>

text \<open>
  One instance of the collaborators, on which the handlers are evaluated: ids are 24
  characters long; a document is rejected by the validators when its role is neither
  \<open>user\<close> nor \<open>admin\<close>, and by the store's unique index when another document has
  its email; removing never fails; hashing prefixes a marker.
\<close>

definition store1 :: collab where
  "store1 =
     \<lparr>castId = (\<lambda>i. length i = 24),
      write_error = (\<lambda>ds d.
         if role d \<noteq> ''user'' \<and> role d \<noteq> ''admin'' then Some ValidationError
         else if \<exists>x \<in> set ds. uid x \<noteq> uid d \<and> email x = email d
              then Some (DuplicateKey [(''email'', JStr (email d))])
         else None),
      remove_error = (\<lambda>ds d. None),
      new_id = (\<lambda>ds. replicate (length ds) (CHR ''1'') @ replicate (24 - length ds) (CHR ''0'')),
      bcrypt_hash = (\<lambda>raw. ''$2a$'' @ raw),
      bcrypt_compare = (\<lambda>raw stored. stored = ''$2a$'' @ raw)\<rparr>"

definition cfg1 :: config where
  "cfg1 = \<lparr>JWT_SECRET = ''s3cret'', JWT_EXPIRE = 2592000000, JWT_COOKIE_EXPIRE = 30,
            NODE_ENV = ''development''\<rparr>"

definition alice :: user where
  "alice = \<lparr>uid = ''64e1f0c2a1b2c3d4e5f60001'', name = ''Alice'', email = ''alice@example.com'',
             tel = ''0811111111'', role = ''user'', password = ''$2a$alicepw'', createdAt = 1000\<rparr>"

definition root :: user where
  "root = \<lparr>uid = ''64e1f0c2a1b2c3d4e5f60002'', name = ''Root'', email = ''root@example.com'',
            tel = ''0822222222'', role = ''admin'', password = ''$2a$rootpw'', createdAt = 2000\<rparr>"

definition token_of :: "user \<Rightarrow> token" where
  "token_of u = getSignedJwtToken cfg1 5000 u"

definition no_patch :: patch where
  "no_patch = \<lparr>p_name = None, p_email = None, p_tel = None, p_role = None,
                p_password = None, p_createdAt = None\<rparr>"

section \<open>Facts about the store and the handlers\<close>

lemmas example_defs =
  store1_def cfg1_def alice_def root_def token_of_def no_patch_def getSignedJwtToken_def

lemmas handler_defs =
  gate_def protect_def verify_token_def authorize_def lookup_id_def replace_doc_def delete_doc_def
  findById_def findOne_email_def assign_def save_def findByIdAndUpdate_def remove_user_def
  User_create_def json_response_def

lemma lookup_id_uid: "lookup_id ds i = Some u \<Longrightarrow> uid u = i"
  unfolding lookup_id_def by (induction ds) (auto split: if_splits)

lemma lookup_id_replace_same:
  "lookup_id ds (uid d) = Some u \<Longrightarrow> lookup_id (replace_doc ds d) (uid d) = Some d"
  unfolding lookup_id_def replace_doc_def by (induction ds) (auto split: if_splits)

lemma uid_assign: "uid (assign u p) = uid u"
  by (simp add: assign_def)

lemma assign_absent:
  "p_name p = None \<Longrightarrow> name (assign u p) = name u"
  "p_email p = None \<Longrightarrow> email (assign u p) = email u"
  "p_tel p = None \<Longrightarrow> tel (assign u p) = tel u"
  "p_role p = None \<Longrightarrow> role (assign u p) = role u"
  "p_password p = None \<Longrightarrow> password (assign u p) = password u"
  "p_createdAt p = None \<Longrightarrow> createdAt (assign u p) = createdAt u"
  by (simp_all add: assign_def)

lemma assign_present:
  "p_name p = Some n \<Longrightarrow> name (assign u p) = n"
  "p_email p = Some e \<Longrightarrow> email (assign u p) = e"
  "p_tel p = Some t \<Longrightarrow> tel (assign u p) = t"
  "p_role p = Some r \<Longrightarrow> role (assign u p) = r"
  "p_password p = Some pw \<Longrightarrow> password (assign u p) = pw"
  "p_createdAt p = Some ca \<Longrightarrow> createdAt (assign u p) = ca"
  by (simp_all add: assign_def)

lemma findById_Some:
  "findById c ds i = Resolved (Some u) \<Longrightarrow> castId c i \<and> lookup_id ds i = Some u \<and> uid u = i"
  by (auto simp: findById_def split: if_splits dest: lookup_id_uid)

text \<open>
  What \<open>updateUser\<close> does once the target document is found: the ownership-or-admin
  check, then the write, rejected or accepted by the validators and the store.
\<close>

lemma updateUser_found:
  assumes "findById c ds params_id = Resolved (Some u)"
  shows "updateUser c ds params_id req_body req_user =
     (if params_id \<noteq> uid req_user \<and> role req_user \<noteq> ''admin''
      then (Sent (json_response 401
              (Message False (''User '' @ uid req_user @ '' is not authorized to update this user''))), ds)
      else case write_error c ds (assign u req_body) of
        Some err \<Rightarrow> (Sent (json_response 400 (Success False)), ds)
      | None \<Rightarrow>
          if truthy_field (p_password req_body)
          then (Sent (json_response 200 (Data True
                  (Some ((assign u req_body)\<lparr>password := bcrypt_hash c (password (assign u req_body))\<rparr>)))),
                replace_doc ds ((assign u req_body)\<lparr>password := bcrypt_hash c (password (assign u req_body))\<rparr>))
          else (Sent (json_response 200 (Data True (Some u))), replace_doc ds (assign u req_body)))"
proof -
  from assms have f: "castId c params_id" "lookup_id ds params_id = Some u"
    using findById_Some by blast+
  have s: "save c ds (assign u req_body) =
      (case write_error c ds (assign u req_body) of
         Some e \<Rightarrow> Rejected e
       | None \<Rightarrow> Resolved ((assign u req_body)\<lparr>password := bcrypt_hash c (password (assign u req_body))\<rparr>,
            replace_doc ds ((assign u req_body)\<lparr>password := bcrypt_hash c (password (assign u req_body))\<rparr>)))"
    by (cases "write_error c ds (assign u req_body)") (simp_all add: save_def Let_def)
  have b: "findByIdAndUpdate c ds params_id req_body =
      (case write_error c ds (assign u req_body) of
         Some e \<Rightarrow> Rejected e
       | None \<Rightarrow> Resolved (Some (assign u req_body), replace_doc ds (assign u req_body)))"
    using f by (simp add: findByIdAndUpdate_def)
  have "updateUser c ds params_id req_body req_user =
     (if params_id \<noteq> uid req_user \<and> role req_user \<noteq> ''admin''
      then (Sent (json_response 401
              (Message False (''User '' @ uid req_user @ '' is not authorized to update this user''))), ds)
      else if truthy_field (p_password req_body)
      then (case save c ds (assign u req_body) of
              Rejected err \<Rightarrow> (Sent (json_response 400 (Success False)), ds)
            | Resolved (saved, ds') \<Rightarrow> (Sent (json_response 200 (Data True (Some saved))), ds'))
      else (case findByIdAndUpdate c ds params_id req_body of
              Rejected err \<Rightarrow> (Sent (json_response 400 (Success False)), ds)
            | Resolved (updated, ds') \<Rightarrow> (Sent (json_response 200 (Data True (Some u))), ds')))"
    by (simp only: updateUser_def assms promise.case option.case)
  then show ?thesis
    unfolding s b
    by (cases "write_error c ds (assign u req_body)") simp_all
qed

text \<open>
  At the route \<open>PUT /auth/:id\<close> a requester whose role is \<open>user\<close> passes the gate, and
  a body that sets the role to \<open>admin\<close> on the requester's own id is stored.
\<close>

lemma router_put_own_role:
  "router_put store1 cfg1 6000 [alice, root] (Some (token_of alice)) (uid alice)
      (no_patch\<lparr>p_role := Some ''admin''\<rparr>)
     = Inr (Sent (json_response 200 (Data True (Some alice))), [alice\<lparr>role := ''admin''\<rparr>, root])"
  by (simp add: router_put_def updateUser_def handler_defs example_defs)

section \<open>The claims\<close>

text \<open>
  C1. The claim: on an existing target, remove succeeds with 200 and empty data when the
  requester's id is the target id or the requester is admin, and is forbidden otherwise;
  in particular a non-admin user deleting their own record succeeds.
  The code at the claim's input: the route \<open>DELETE /auth/:id\<close> is gated by
  \<open>authorize("admin")\<close>, so a requester with role \<open>user\<close> who deletes their own record
  is stopped at the gate with Forbidden, although the controller \<open>deleteUser\<close>, run on
  the same request, would remove the record and answer 200 with empty data.
\<close>

theorem delete_own_record_forbidden:
  "router_delete store1 cfg1 6000 [alice, root] (Some (token_of alice)) (uid alice) = Inl Forbidden
   \<and> deleteUser store1 [alice, root] (uid alice) alice
       = (Sent (json_response 200 (DataEmpty True)), [root])"
  by (simp add: router_delete_def deleteUser_def handler_defs example_defs)

text \<open>
  C2. The claim: a login with an email that has no record and a login with an existing
  email and a wrong password produce identical responses, status and body.
  The code at the claim's input: the bodies are the same, the statuses are 400 and 401,
  so the two responses differ.
\<close>

theorem login_failures_differ:
  "login store1 cfg1 6000 [alice, root]
      \<lparr>l_email = Some ''nobody@example.com'', l_password = JStr ''wrong''\<rparr>
     = Sent (json_response 400 (Msg False ''Invalid credentials''))
   \<and> login store1 cfg1 6000 [alice, root]
      \<lparr>l_email = Some ''alice@example.com'', l_password = JStr ''wrong''\<rparr>
     = Sent (json_response 401 (Msg False ''Invalid credentials''))
   \<and> login store1 cfg1 6000 [alice, root]
      \<lparr>l_email = Some ''nobody@example.com'', l_password = JStr ''wrong''\<rparr>
     \<noteq> login store1 cfg1 6000 [alice, root]
      \<lparr>l_email = Some ''alice@example.com'', l_password = JStr ''wrong''\<rparr>"
  by (simp add: login_def handler_defs example_defs)

text \<open>
  Witness for C2: both requests carry an email and a password, so neither is answered
  by the missing-fields branch; the statuses sent are 400 and 401.
\<close>

theorem login_failures_differ_witness:
  "truthy_field (Some ''nobody@example.com'') \<and> truthy_field (Some ''alice@example.com'')
   \<and> truthy (JStr ''wrong'')
   \<and> status_of (login store1 cfg1 6000 [alice, root]
        \<lparr>l_email = Some ''nobody@example.com'', l_password = JStr ''wrong''\<rparr>) = Some 400
   \<and> status_of (login store1 cfg1 6000 [alice, root]
        \<lparr>l_email = Some ''alice@example.com'', l_password = JStr ''wrong''\<rparr>) = Some 401"
  using login_failures_differ by (simp add: json_response_def)



text \<open>
  C4. The claim: the 200 response of an authorized update carries the record with the
  patch applied, not the state before the update.
  The code at the claim's input: for a body without a password the result of
  \<open>findByIdAndUpdate\<close> is dropped and the response carries the document read before
  the write; the store holds the new name, the response the old one.
\<close>

theorem update_response_is_stale:
  "updateUser store1 [alice, root] (uid alice) (no_patch\<lparr>p_name := Some ''Alicia''\<rparr>) alice
     = (Sent (json_response 200 (Data True (Some alice))), [alice\<lparr>name := ''Alicia''\<rparr>, root])
   \<and> name alice \<noteq> ''Alicia''"
  by (simp add: updateUser_def handler_defs example_defs)

text \<open>
  C5. The claim: register answers 400 with the duplicate-email message when the email
  exists, and 400 with the generic create-error message for every other failure of the
  create, the error handler producing a response in both cases.
  The code at the claim's input: a body without the required name makes the create fail
  with an error that has no \<open>keyValue\<close>; reading \<open>err.keyValue.email\<close> then
  throws inside the handler and no response is sent.
\<close>

theorem register_error_handler_throws:
  "register store1 cfg1 6000 [alice, root]
      \<lparr>r_name = None, r_email = Some ''carol@example.com'', r_tel = Some ''0833333333'',
       r_password = Some ''carolpw'', r_role = None\<rparr>
     = (Uncaught TypeError, [alice, root])"
  by (simp add: register_def handler_defs example_defs)

text \<open>
  C6. For every update on an existing record, whatever the body, the requester and the
  outcome, the stored record keeps its id and every field that is absent from the body
  keeps its value.
\<close>

theorem update_leaves_absent_fields:
  assumes "findById c ds params_id = Resolved (Some u)"
  shows "map_option uid (lookup_id (snd (updateUser c ds params_id req_body req_user)) params_id) = Some (uid u)
    \<and> (p_name req_body = None \<longrightarrow>
         map_option name (lookup_id (snd (updateUser c ds params_id req_body req_user)) params_id) = Some (name u))
    \<and> (p_email req_body = None \<longrightarrow>
         map_option email (lookup_id (snd (updateUser c ds params_id req_body req_user)) params_id) = Some (email u))
    \<and> (p_tel req_body = None \<longrightarrow>
         map_option tel (lookup_id (snd (updateUser c ds params_id req_body req_user)) params_id) = Some (tel u))
    \<and> (p_role req_body = None \<longrightarrow>
         map_option role (lookup_id (snd (updateUser c ds params_id req_body req_user)) params_id) = Some (role u))
    \<and> (p_password req_body = None \<longrightarrow>
         map_option password (lookup_id (snd (updateUser c ds params_id req_body req_user)) params_id) = Some (password u))
    \<and> (p_createdAt req_body = None \<longrightarrow>
         map_option createdAt (lookup_id (snd (updateUser c ds params_id req_body req_user)) params_id) = Some (createdAt u))"
proof -
  from assms have f: "lookup_id ds params_id = Some u" "uid u = params_id"
    using findById_Some by blast+
  let ?a = "assign u req_body"
  let ?h = "?a\<lparr>password := bcrypt_hash c (password ?a)\<rparr>"
  have ua: "uid ?a = params_id" "uid ?h = params_id"
    using f(2) by (simp_all add: uid_assign)
  have ra: "lookup_id (replace_doc ds ?a) params_id = Some ?a"
    using lookup_id_replace_same[of ds ?a u] f(1) ua by simp
  have rh: "lookup_id (replace_doc ds ?h) params_id = Some ?h"
    using lookup_id_replace_same[of ds ?h u] f(1) ua by simp
  show ?thesis
  proof (cases "write_error c ds ?a")
    case None
    show ?thesis
      unfolding updateUser_found[OF assms] None
      using f(1) ra rh by (auto simp: assign_absent uid_assign)
  next
    case (Some e)
    show ?thesis
      unfolding updateUser_found[OF assms] Some
      using f(1) by simp
  qed
qed

text \<open>
  Witness for C6: a user renames themself; the stored name changes, the email and the
  role, absent from the body, do not.
\<close>

theorem update_leaves_absent_fields_witness:
  "findById store1 [alice, root] (uid alice) = Resolved (Some alice)
   \<and> p_email (no_patch\<lparr>p_name := Some ''Alicia''\<rparr>) = None
   \<and> map_option name (lookup_id (snd (updateUser store1 [alice, root] (uid alice)
          (no_patch\<lparr>p_name := Some ''Alicia''\<rparr>) alice)) (uid alice)) = Some ''Alicia''
   \<and> map_option email (lookup_id (snd (updateUser store1 [alice, root] (uid alice)
          (no_patch\<lparr>p_name := Some ''Alicia''\<rparr>) alice)) (uid alice)) = Some (email alice)
   \<and> map_option role (lookup_id (snd (updateUser store1 [alice, root] (uid alice)
          (no_patch\<lparr>p_name := Some ''Alicia''\<rparr>) alice)) (uid alice)) = Some (role alice)"
proof -
  have h: "findById store1 [alice, root] (uid alice) = Resolved (Some alice)"
    by (simp add: handler_defs example_defs)
  have n: "map_option name (lookup_id (snd (updateUser store1 [alice, root] (uid alice)
          (no_patch\<lparr>p_name := Some ''Alicia''\<rparr>) alice)) (uid alice)) = Some ''Alicia''"
    by (simp add: updateUser_def handler_defs example_defs)
  show ?thesis
    using h n update_leaves_absent_fields [OF h, of "no_patch\<lparr>p_name := Some ''Alicia''\<rparr>" alice]
    by (simp add: no_patch_def)
qed

text \<open>
  C7. For every id for which the lookup resolves with no record, \<open>deleteUser\<close> answers
  404 with the id echoed in the message and the store is left as it was.
\<close>

theorem delete_missing_is_not_found:
  "findById c ds params_id = Resolved None \<Longrightarrow>
   deleteUser c ds params_id req_user =
     (Sent (json_response 404 (Message False (''No user with the id of '' @ params_id))), ds)"
  by (simp add: deleteUser_def)

text \<open>Witness for C7: an admin deletes an id that no document has.\<close>

theorem delete_missing_is_not_found_witness:
  "findById store1 [alice, root] ''64e1f0c2a1b2c3d4e5f60009'' = Resolved None
   \<and> deleteUser store1 [alice, root] ''64e1f0c2a1b2c3d4e5f60009'' root
       = (Sent (json_response 404 (Message False ''No user with the id of 64e1f0c2a1b2c3d4e5f60009'')),
          [alice, root])"
proof -
  have h: "findById store1 [alice, root] ''64e1f0c2a1b2c3d4e5f60009'' = Resolved None"
    by (simp add: handler_defs example_defs)
  show ?thesis
    using h delete_missing_is_not_found [OF h, of root] by simp
qed




text \<open>
  C9. \<open>updateUser\<close> applies every field present in the body, whichever it is: when the
  requester is the target or an admin and the validators and the store accept the
  document, the answer is 200 and each field that the body carries, name, email, tel,
  role, password or createdAt, has in the stored record the value the body gives it (the
  password hashed when the body carries a non-empty one); no field is held back. In
  particular a body with role \<open>admin\<close> makes the stored role \<open>admin\<close>, also when
  the requester is a non-admin user updating their own record.
\<close>

theorem update_applies_every_field:
  assumes "findById c ds params_id = Resolved (Some u)"
    and "params_id = uid req_user \<or> role req_user = ''admin''"
    and "write_error c ds (assign u req_body) = None"
  shows "status_of (fst (updateUser c ds params_id req_body req_user)) = Some 200
    \<and> lookup_id (snd (updateUser c ds params_id req_body req_user)) params_id
        = Some (if truthy_field (p_password req_body)
                then (assign u req_body)\<lparr>password := bcrypt_hash c (password (assign u req_body))\<rparr>
                else assign u req_body)
    \<and> (p_role req_body = Some ''admin'' \<longrightarrow>
         map_option role (lookup_id (snd (updateUser c ds params_id req_body req_user)) params_id)
           = Some ''admin'')
    \<and> (p_name req_body = Some n \<longrightarrow>
         map_option name (lookup_id (snd (updateUser c ds params_id req_body req_user)) params_id)
           = Some n)
    \<and> (p_email req_body = Some e \<longrightarrow>
         map_option email (lookup_id (snd (updateUser c ds params_id req_body req_user)) params_id)
           = Some e)
    \<and> (p_tel req_body = Some t \<longrightarrow>
         map_option tel (lookup_id (snd (updateUser c ds params_id req_body req_user)) params_id)
           = Some t)
    \<and> (p_role req_body = Some r \<longrightarrow>
         map_option role (lookup_id (snd (updateUser c ds params_id req_body req_user)) params_id)
           = Some r)
    \<and> (p_password req_body = Some pw \<longrightarrow>
         map_option password (lookup_id (snd (updateUser c ds params_id req_body req_user)) params_id)
           = Some (if pw \<noteq> [] then bcrypt_hash c pw else pw))
    \<and> (p_createdAt req_body = Some ca \<longrightarrow>
         map_option createdAt (lookup_id (snd (updateUser c ds params_id req_body req_user)) params_id)
           = Some ca)"
proof -
  from assms(1) have f: "lookup_id ds params_id = Some u" "uid u = params_id"
    using findById_Some by blast+
  let ?a = "assign u req_body"
  let ?h = "?a\<lparr>password := bcrypt_hash c (password ?a)\<rparr>"
  let ?r = "updateUser c ds params_id req_body req_user"
  let ?stored = "if truthy_field (p_password req_body) then ?h else ?a"
  have ua: "uid ?a = params_id" "uid ?h = params_id"
    using f(2) by (simp_all add: uid_assign)
  have ra: "lookup_id (replace_doc ds ?a) params_id = Some ?a"
    using lookup_id_replace_same[of ds ?a u] f(1) ua by simp
  have rh: "lookup_id (replace_doc ds ?h) params_id = Some ?h"
    using lookup_id_replace_same[of ds ?h u] f(1) ua by simp
  have st: "status_of (fst ?r) = Some 200"
    unfolding updateUser_found[OF assms(1)]
    using assms(2,3) by (auto simp: json_response_def)
  have lk: "lookup_id (snd ?r) params_id = Some ?stored"
    unfolding updateUser_found[OF assms(1)]
    using assms(2,3) ra rh by auto
  have f_name: "p_name req_body = Some n \<Longrightarrow> name ?stored = n"
    by (simp add: assign_present)
  have f_email: "p_email req_body = Some e \<Longrightarrow> email ?stored = e"
    by (simp add: assign_present)
  have f_tel: "p_tel req_body = Some t \<Longrightarrow> tel ?stored = t"
    by (simp add: assign_present)
  have f_role: "p_role req_body = Some r \<Longrightarrow> role ?stored = r"
    by (simp add: assign_present)
  have f_admin: "p_role req_body = Some ''admin'' \<Longrightarrow> role ?stored = ''admin''"
    by (simp add: assign_present)
  have f_created: "p_createdAt req_body = Some ca \<Longrightarrow> createdAt ?stored = ca"
    by (simp add: assign_present)
  have f_pw: "p_password req_body = Some pw \<Longrightarrow>
      password ?stored = (if pw \<noteq> [] then bcrypt_hash c pw else pw)"
    by (simp add: assign_present)
  show ?thesis
    unfolding lk
    using st f_name f_email f_tel f_role f_admin f_created f_pw
    by simp
qed

text \<open>
  Witness for C9: a user whose role is \<open>user\<close> sends the role \<open>admin\<close>, a new
  email, a new phone number and a new password for their own id; the answer is 200,
  the stored role is \<open>admin\<close>, the stored email and phone number are the ones sent
  and the stored password is the hash of the one sent.
\<close>

theorem update_applies_every_field_witness:
  "findById store1 [alice, root] (uid alice) = Resolved (Some alice)
   \<and> role alice \<noteq> ''admin''
   \<and> write_error store1 [alice, root]
        (assign alice (no_patch\<lparr>p_email := Some ''al@example.com'', p_tel := Some ''0899999999'',
           p_role := Some ''admin'', p_password := Some ''newpw''\<rparr>)) = None
   \<and> status_of (fst (updateUser store1 [alice, root] (uid alice)
        (no_patch\<lparr>p_email := Some ''al@example.com'', p_tel := Some ''0899999999'',
           p_role := Some ''admin'', p_password := Some ''newpw''\<rparr>) alice)) = Some 200
   \<and> map_option role (lookup_id (snd (updateUser store1 [alice, root] (uid alice)
        (no_patch\<lparr>p_email := Some ''al@example.com'', p_tel := Some ''0899999999'',
           p_role := Some ''admin'', p_password := Some ''newpw''\<rparr>) alice)) (uid alice)) = Some ''admin''
   \<and> map_option email (lookup_id (snd (updateUser store1 [alice, root] (uid alice)
        (no_patch\<lparr>p_email := Some ''al@example.com'', p_tel := Some ''0899999999'',
           p_role := Some ''admin'', p_password := Some ''newpw''\<rparr>) alice)) (uid alice)) = Some ''al@example.com''
   \<and> map_option tel (lookup_id (snd (updateUser store1 [alice, root] (uid alice)
        (no_patch\<lparr>p_email := Some ''al@example.com'', p_tel := Some ''0899999999'',
           p_role := Some ''admin'', p_password := Some ''newpw''\<rparr>) alice)) (uid alice)) = Some ''0899999999''
   \<and> map_option password (lookup_id (snd (updateUser store1 [alice, root] (uid alice)
        (no_patch\<lparr>p_email := Some ''al@example.com'', p_tel := Some ''0899999999'',
           p_role := Some ''admin'', p_password := Some ''newpw''\<rparr>) alice)) (uid alice)) = Some ''$2a$newpw''"
proof -
  let ?p = "no_patch\<lparr>p_email := Some ''al@example.com'', p_tel := Some ''0899999999'',
           p_role := Some ''admin'', p_password := Some ''newpw''\<rparr>"
  have h: "findById store1 [alice, root] (uid alice) = Resolved (Some alice)"
    by (simp add: handler_defs example_defs)
  have w: "write_error store1 [alice, root] (assign alice ?p) = None"
    by (simp add: handler_defs example_defs)
  have r: "role alice \<noteq> ''admin''"
    by (simp add: alice_def)
  have hs: "bcrypt_hash store1 ''newpw'' = ''$2a$newpw''"
    by (simp add: store1_def)
  have own: "uid alice = uid alice \<or> role alice = ''admin''"
    by simp
  note t = update_applies_every_field [OF h own w,
      where n = "''Alice''" and e = "''al@example.com''" and t = "''0899999999''"
        and r = "''admin''" and pw = "''newpw''" and ca = 1000]
  show ?thesis
    using h w r t hs by (simp add: no_patch_def assign_def)
qed

text \<open>
  C10. \<open>updateUser\<close> looks the target up before the ownership-or-admin check: when the
  id resolves to no record the answer is 400 with \<open>success: false\<close> and the store is
  unchanged, whoever the requester is; and the answer is 401 only when the target
  record exists.
\<close>

theorem update_checks_existence_first:
  "(findById c ds params_id = Resolved None \<longrightarrow>
      updateUser c ds params_id req_body req_user = (Sent (json_response 400 (Success False)), ds))
   \<and> (status_of (fst (updateUser c ds params_id req_body req_user)) = Some 401 \<longrightarrow>
          (\<exists>u. findById c ds params_id = Resolved (Some u)))"
  by (auto simp: updateUser_def json_response_def
      split: promise.splits option.splits if_splits prod.splits)

text \<open>
  Witness for C10: a user updates an id that no document has and gets 400; the same
  user updates the admin's record, which exists, and gets 401.
\<close>

theorem update_checks_existence_first_witness:
  "findById store1 [alice, root] ''64e1f0c2a1b2c3d4e5f60009'' = Resolved None
   \<and> updateUser store1 [alice, root] ''64e1f0c2a1b2c3d4e5f60009'' no_patch alice
       = (Sent (json_response 400 (Success False)), [alice, root])
   \<and> status_of (fst (updateUser store1 [alice, root] (uid root) no_patch alice)) = Some 401
   \<and> (\<exists>u. findById store1 [alice, root] (uid root) = Resolved (Some u))"
proof -
  have h: "findById store1 [alice, root] ''64e1f0c2a1b2c3d4e5f60009'' = Resolved None"
    by (simp add: handler_defs example_defs)
  have s: "status_of (fst (updateUser store1 [alice, root] (uid root) no_patch alice)) = Some 401"
    by (simp add: updateUser_def handler_defs example_defs)
  show ?thesis
    using h s
      update_checks_existence_first [of store1 "[alice, root]" "''64e1f0c2a1b2c3d4e5f60009''" no_patch alice]
      update_checks_existence_first [of store1 "[alice, root]" "uid root" no_patch alice]
    by simp
qed

end
